theory Spec2Isabelle
  imports Main "HOL-Library.Word"
begin

unbundle bit_operations_syntax

section \<open>Bytes and Python's integer conversions\<close>

text \<open>
  Python's \<^verbatim>\<open>bytes\<close> is a sequence of values in 0..255; Python's \<^verbatim>\<open>int\<close> is unbounded.
\<close>

type_synonym byte = "8 word"
type_synonym bytes = "byte list"

text \<open>The only exception the driver's own code can raise: \<^verbatim>\<open>int.to_bytes\<close> out of range.\<close>

datatype error = OverflowError

text \<open>The \<open>k\<close> low base-256 digits of \<open>n\<close>, most significant first.\<close>

fun be_bytes :: "nat \<Rightarrow> int \<Rightarrow> bytes" where
  "be_bytes 0 n = []"
| "be_bytes (Suc k) n = be_bytes k (n div 256) @ [word_of_int n]"

text \<open>
  \<^verbatim>\<open>n.to_bytes(length, byteorder="big")\<close>: unsigned conversion; a negative \<open>n\<close> and an
  \<open>n\<close> that does not fit into \<open>length\<close> bytes both raise OverflowError.
\<close>

definition to_bytes :: "int \<Rightarrow> nat \<Rightarrow> error + bytes" where
  "to_bytes n len =
     (if n < 0 then Inl OverflowError
      else if 256 ^ len \<le> n then Inl OverflowError
      else Inr (be_bytes len n))"

text \<open>\<^verbatim>\<open>int.from_bytes(bs, byteorder="little")\<close>; the empty sequence gives 0.\<close>

fun from_bytes_little :: "bytes \<Rightarrow> int" where
  "from_bytes_little [] = 0"
| "from_bytes_little (b # bs) = uint b + 256 * from_bytes_little bs"

text \<open>Big-endian decoding, the inverse of \<open>be_bytes\<close>; used by the device side.\<close>

fun from_bytes_big_acc :: "int \<Rightarrow> bytes \<Rightarrow> int" where
  "from_bytes_big_acc acc [] = acc"
| "from_bytes_big_acc acc (b # bs) = from_bytes_big_acc (256 * acc + uint b) bs"

definition from_bytes_big :: "bytes \<Rightarrow> int" where
  "from_bytes_big bs = from_bytes_big_acc 0 bs"

section \<open>The transport and the client state\<close>

text \<open>
  The transport handle \<^verbatim>\<open>self._hydrabus\<close> belongs to the base class and is not part of
  \<^verbatim>\<open>mmc.py\<close>. It is a parameter of the model: a device state \<open>'d\<close> with the two
  primitives the driver calls, \<^verbatim>\<open>write(bytes)\<close> and \<^verbatim>\<open>read(n)\<close>. Nothing is assumed about
  what \<open>tr_read\<close> returns (a short read is a possible answer).
\<close>

record 'd transport =
  tr_write :: "bytes \<Rightarrow> 'd \<Rightarrow> 'd"
  tr_read :: "nat \<Rightarrow> 'd \<Rightarrow> bytes \<times> 'd"

text \<open>
  Everything the client does to the outside world, in order: transport writes, transport
  reads (with the requested count and the bytes that came back), \<^verbatim>\<open>self._logger.error\<close>
  and \<^verbatim>\<open>print\<close>.
\<close>

datatype event =
    Write bytes
  | Read nat bytes
  | LogError string
  | Print string

text \<open>
  The fields \<^verbatim>\<open>_rf\<close>, \<^verbatim>\<open>_mode\<close>, \<^verbatim>\<open>_config\<close> and \<^verbatim>\<open>_hydrabus\<close> of an \<^verbatim>\<open>MMC\<close> object,
  and the history of its effects.
\<close>

record 'd mmc =
  rf :: int
  mode :: int
  config :: int
  hydrabus :: 'd
  trace :: "event list"

text \<open>
  A method either returns a value or raises; in both cases the object and the transport
  keep whatever was done before.
\<close>

type_synonym ('a, 'd) io = "'d mmc \<Rightarrow> (error + 'a) \<times> 'd mmc"

definition io_return :: "'a \<Rightarrow> ('a, 'd) io" where
  "io_return x = (\<lambda>s. (Inr x, s))"

definition io_lift :: "error + 'a \<Rightarrow> ('a, 'd) io" where
  "io_lift r = (\<lambda>s. (r, s))"

definition io_bind :: "('a, 'd) io \<Rightarrow> ('a \<Rightarrow> ('b, 'd) io) \<Rightarrow> ('b, 'd) io" where
  "io_bind m f = (\<lambda>s. case m s of (Inl e, s') \<Rightarrow> (Inl e, s') | (Inr x, s') \<Rightarrow> f x s')"

definition io_get :: "('d mmc, 'd) io" where
  "io_get = (\<lambda>s. (Inr s, s))"

definition io_modify :: "('d mmc \<Rightarrow> 'd mmc) \<Rightarrow> (unit, 'd) io" where
  "io_modify f = (\<lambda>s. (Inr (), f s))"

definition hydrabus_write :: "'d transport \<Rightarrow> bytes \<Rightarrow> (unit, 'd) io" where
  "hydrabus_write T bs =
     io_modify (\<lambda>s. s\<lparr>hydrabus := tr_write T bs (hydrabus s), trace := trace s @ [Write bs]\<rparr>)"

definition hydrabus_read :: "'d transport \<Rightarrow> nat \<Rightarrow> (bytes, 'd) io" where
  "hydrabus_read T n =
     (\<lambda>s. case tr_read T n (hydrabus s) of
            (bs, d) \<Rightarrow> (Inr bs, s\<lparr>hydrabus := d, trace := trace s @ [Read n bs]\<rparr>))"

definition logger_error :: "string \<Rightarrow> (unit, 'd) io" where
  "logger_error msg = io_modify (\<lambda>s. s\<lparr>trace := trace s @ [LogError msg]\<rparr>)"

definition print :: "string \<Rightarrow> (unit, 'd) io" where
  "print msg = io_modify (\<lambda>s. s\<lparr>trace := trace s @ [Print msg]\<rparr>)"

section \<open>The MMC client\<close>

definition MMC_DEFAULT_CONFIG :: int where
  "MMC_DEFAULT_CONFIG = 0"

text \<open>
  \<^verbatim>\<open>__init__\<close> sets the three fields and then runs the base class's constructor, which
  opens the transport and enters the mode. That constructor is not part of \<^verbatim>\<open>mmc.py\<close>;
  the handle it leaves behind is the argument \<open>d\<close>.
\<close>

definition MMC_init :: "'d \<Rightarrow> 'd mmc" where
  "MMC_init d = \<lparr>rf = 0, mode = 0, config = MMC_DEFAULT_CONFIG, hydrabus = d, trace = []\<rparr>"

text \<open>\<^verbatim>\<open>_configure_port\<close>; \<open>0x80\<close> is \<^verbatim>\<open>0b10000000\<close>.\<close>

definition configure_port :: "'d transport \<Rightarrow> (bool, 'd) io" where
  "configure_port T =
     io_bind io_get (\<lambda>self.
     let CMD = 0x80;
         CMD = CMD OR config self in
     io_bind (io_lift (to_bytes CMD 1)) (\<lambda>cmd.
     io_bind (hydrabus_write T cmd) (\<lambda>_.
     io_bind (hydrabus_read T 1) (\<lambda>r.
     if r = [0x01] then io_return True
     else io_bind (logger_error ''Error setting config.'') (\<lambda>_. io_return False)))))"

text \<open>\<^verbatim>\<open>cid\<close>, opcode \<^verbatim>\<open>0b00000010\<close>.\<close>

definition cid :: "'d transport \<Rightarrow> (bytes, 'd) io" where
  "cid T =
     (let CMD = 0x02 in
     io_bind (io_lift (to_bytes CMD 1)) (\<lambda>cmd.
     io_bind (hydrabus_write T cmd) (\<lambda>_.
     io_bind (hydrabus_read T 1) (\<lambda>r.
     let status = from_bytes_little r in
     hydrabus_read T 16))))"

text \<open>\<^verbatim>\<open>csd\<close>, opcode \<^verbatim>\<open>0b00000011\<close>.\<close>

definition csd :: "'d transport \<Rightarrow> (bytes, 'd) io" where
  "csd T =
     (let CMD = 0x03 in
     io_bind (io_lift (to_bytes CMD 1)) (\<lambda>cmd.
     io_bind (hydrabus_write T cmd) (\<lambda>_.
     io_bind (hydrabus_read T 1) (\<lambda>r.
     let status = from_bytes_little r in
     hydrabus_read T 16))))"

text \<open>\<^verbatim>\<open>ext_csd\<close>, opcode \<^verbatim>\<open>0b00000110\<close>.\<close>

definition ext_csd :: "'d transport \<Rightarrow> (bytes, 'd) io" where
  "ext_csd T =
     (let CMD = 0x06 in
     io_bind (io_lift (to_bytes CMD 1)) (\<lambda>cmd.
     io_bind (hydrabus_write T cmd) (\<lambda>_.
     io_bind (hydrabus_read T 1) (\<lambda>r.
     let status = from_bytes_little r in
     hydrabus_read T 512))))"

text \<open>The \<^verbatim>\<open>bus_width\<close> getter: Python's truth test of \<^verbatim>\<open>self._config & 0b1\<close>.\<close>

definition bus_width :: "'d mmc \<Rightarrow> int" where
  "bus_width self = (if config self AND 1 \<noteq> 0 then 4 else 1)"

text \<open>The \<^verbatim>\<open>bus_width\<close> setter.\<close>

definition bus_width_setter :: "'d transport \<Rightarrow> int \<Rightarrow> (unit, 'd) io" where
  "bus_width_setter T v =
     io_bind
       (if v = 1 then io_modify (\<lambda>self. self\<lparr>config := config self AND NOT 1\<rparr>)
        else if v = 4 then io_modify (\<lambda>self. self\<lparr>config := config self OR 1\<rparr>)
        else print ''Invalid value (1 or 4)'') (\<lambda>_.
     io_bind (configure_port T) (\<lambda>_.
     io_return ()))"

text \<open>\<^verbatim>\<open>write(data, block_num)\<close>, opcode \<^verbatim>\<open>0b00000101\<close> (\<open>write\<close> is reserved here).\<close>

definition write_block :: "'d transport \<Rightarrow> bytes \<Rightarrow> int \<Rightarrow> (bool, 'd) io" where
  "write_block T data block_num =
     (let CMD = 0x05 in
     io_bind (io_lift (to_bytes CMD 1)) (\<lambda>cmd.
     io_bind (hydrabus_write T cmd) (\<lambda>_.
     io_bind (io_lift (to_bytes block_num 4)) (\<lambda>addr.
     io_bind (hydrabus_write T addr) (\<lambda>_.
     io_bind (hydrabus_write T data) (\<lambda>_.
     io_bind (hydrabus_read T 1) (\<lambda>r.
     let status = from_bytes_little r in
     io_return (status = 1))))))))"

text \<open>\<^verbatim>\<open>read(block_num)\<close>, opcode \<^verbatim>\<open>0b00000100\<close>.\<close>

definition read :: "'d transport \<Rightarrow> int \<Rightarrow> (bytes, 'd) io" where
  "read T block_num =
     (let CMD = 0x04 in
     io_bind (io_lift (to_bytes CMD 1)) (\<lambda>cmd.
     io_bind (hydrabus_write T cmd) (\<lambda>_.
     io_bind (io_lift (to_bytes block_num 4)) (\<lambda>addr.
     io_bind (hydrabus_write T addr) (\<lambda>_.
     io_bind (hydrabus_read T 1) (\<lambda>r.
     let status = from_bytes_little r in
     if status = 1 then hydrabus_read T 512
     else io_return []))))))"

text \<open>\<^verbatim>\<open>lock\<close>, opcode \<^verbatim>\<open>0b00000111\<close>.\<close>

definition lock :: "'d transport \<Rightarrow> (int, 'd) io" where
  "lock T =
     (let CMD = 0x07 in
     io_bind (io_lift (to_bytes CMD 1)) (\<lambda>cmd.
     io_bind (hydrabus_write T cmd) (\<lambda>_.
     io_bind (hydrabus_read T 1) (\<lambda>r.
     let status = from_bytes_little r in
     io_return status))))"

text \<open>\<^verbatim>\<open>unlock\<close>, opcode \<^verbatim>\<open>0b00001000\<close>.\<close>

definition unlock :: "'d transport \<Rightarrow> (int, 'd) io" where
  "unlock T =
     (let CMD = 0x08 in
     io_bind (io_lift (to_bytes CMD 1)) (\<lambda>cmd.
     io_bind (hydrabus_write T cmd) (\<lambda>_.
     io_bind (hydrabus_read T 1) (\<lambda>r.
     let status = from_bytes_little r in
     io_return status))))"

text \<open>\<^verbatim>\<open>set_password\<close>, opcode \<^verbatim>\<open>0b00001001\<close>.\<close>

definition set_password :: "'d transport \<Rightarrow> (int, 'd) io" where
  "set_password T =
     (let CMD = 0x09 in
     io_bind (io_lift (to_bytes CMD 1)) (\<lambda>cmd.
     io_bind (hydrabus_write T cmd) (\<lambda>_.
     io_bind (hydrabus_read T 1) (\<lambda>r.
     let status = from_bytes_little r in
     io_return status))))"

text \<open>\<^verbatim>\<open>clear_password\<close>, opcode \<^verbatim>\<open>0b00001010\<close>.\<close>

definition clear_password :: "'d transport \<Rightarrow> (int, 'd) io" where
  "clear_password T =
     (let CMD = 0x0A in
     io_bind (io_lift (to_bytes CMD 1)) (\<lambda>cmd.
     io_bind (hydrabus_write T cmd) (\<lambda>_.
     io_bind (hydrabus_read T 1) (\<lambda>r.
     let status = from_bytes_little r in
     io_return status))))"

text \<open>\<^verbatim>\<open>fail_to_lock\<close>, opcode \<^verbatim>\<open>0b00001011\<close>.\<close>

definition fail_to_lock :: "'d transport \<Rightarrow> (int, 'd) io" where
  "fail_to_lock T =
     (let CMD = 0x0B in
     io_bind (io_lift (to_bytes CMD 1)) (\<lambda>cmd.
     io_bind (hydrabus_write T cmd) (\<lambda>_.
     io_bind (hydrabus_read T 1) (\<lambda>r.
     let status = from_bytes_little r in
     io_return status))))"

text \<open>
  \<^verbatim>\<open>is_lock\<close>, opcode \<^verbatim>\<open>0b00001100\<close>; the two \<^verbatim>\<open>if\<close>s are Python truth tests of the
  masked status.
\<close>

definition is_lock :: "'d transport \<Rightarrow> (bool, 'd) io" where
  "is_lock T =
     (let MMC_IS_LOCK = 0xF0;
          MMC_LOCKE_ERROR = 0x0F;
          CMD = 0x0C;
          return_value = False in
     io_bind (io_lift (to_bytes CMD 1)) (\<lambda>cmd.
     io_bind (hydrabus_write T cmd) (\<lambda>_.
     io_bind (hydrabus_read T 1) (\<lambda>r.
     let status = from_bytes_little r in
     io_bind (if status AND MMC_LOCKE_ERROR \<noteq> 0 then print ''CMD42 Error flag ON''
              else io_return ()) (\<lambda>_.
     let return_value = (if status AND MMC_IS_LOCK \<noteq> 0 then True else return_value) in
     io_return return_value)))))"

section \<open>A transport that replays a fixed reply stream\<close>

text \<open>
  The simplest transport to run the client against: writes are accepted and dropped, a
  read of \<open>n\<close> bytes hands out the next \<open>n\<close> bytes of a prepared stream (fewer when the
  stream runs dry, as a read that times out does).
\<close>

definition replay :: "bytes transport" where
  "replay = \<lparr>tr_write = (\<lambda>bs d. d), tr_read = (\<lambda>n d. (take n d, drop n d))\<rparr>"

section \<open>Sequences of calls\<close>

text \<open>
  One constructor per method or property of the class; \<open>perform\<close> is the object after
  the call, whether the call returned or raised.
\<close>

datatype command =
    Cid | Csd | ExtCsd
  | GetBusWidth | SetBusWidth int
  | WriteBlock bytes int | ReadBlock int
  | Lock | Unlock | SetPassword | ClearPassword | FailToLock | IsLock
  | ConfigurePort

fun perform :: "'d transport \<Rightarrow> command \<Rightarrow> 'd mmc \<Rightarrow> 'd mmc" where
  "perform T Cid s = snd (cid T s)"
| "perform T Csd s = snd (csd T s)"
| "perform T ExtCsd s = snd (ext_csd T s)"
| "perform T GetBusWidth s = s"
| "perform T (SetBusWidth v) s = snd (bus_width_setter T v s)"
| "perform T (WriteBlock data block_num) s = snd (write_block T data block_num s)"
| "perform T (ReadBlock block_num) s = snd (read T block_num s)"
| "perform T Lock s = snd (lock T s)"
| "perform T Unlock s = snd (unlock T s)"
| "perform T SetPassword s = snd (set_password T s)"
| "perform T ClearPassword s = snd (clear_password T s)"
| "perform T FailToLock s = snd (fail_to_lock T s)"
| "perform T IsLock s = snd (is_lock T s)"
| "perform T ConfigurePort s = snd (configure_port T s)"

fun run :: "'d transport \<Rightarrow> command list \<Rightarrow> 'd mmc \<Rightarrow> 'd mmc" where
  "run T [] s = s"
| "run T (c # cs) s = run T cs (perform T c s)"

section \<open>A device that stores blocks\<close>

text \<open>
  Modelled from the spec: the mock device of the write-then-read property; the repository
  has no device or test code. It keeps a block store, the request bytes it has received
  and not yet consumed, and the reply bytes the host has not yet read.
\<close>

record device =
  blocks :: "int \<rightharpoonup> bytes"
  pending :: bytes
  replies :: bytes

text \<open>
  Modelled from the spec: the device consumes complete requests from the byte stream. A
  write request is the opcode \<open>0x05\<close>, four big-endian address bytes and 512 payload
  bytes: the payload is stored under the address and acknowledged with status 1. A read
  request is the opcode \<open>0x04\<close> and four address bytes: a stored block is echoed after
  status 1, an unknown block is answered with status 0 alone. Any other byte is dropped
  without a reply.
\<close>

function device_process :: "device \<Rightarrow> device" where
  "device_process dv =
     (case pending dv of
        [] \<Rightarrow> dv
      | opc # rest \<Rightarrow>
          if opc = 0x05 then
            (if length rest < 4 + 512 then dv
             else device_process
               (dv\<lparr>blocks := (blocks dv)(from_bytes_big (take 4 rest) \<mapsto> take 512 (drop 4 rest)),
                   pending := drop (4 + 512) rest,
                   replies := replies dv @ [0x01]\<rparr>))
          else if opc = 0x04 then
            (if length rest < 4 then dv
             else device_process
               (dv\<lparr>pending := drop 4 rest,
                   replies := replies dv @
                     (case blocks dv (from_bytes_big (take 4 rest)) of
                        Some blk \<Rightarrow> 0x01 # blk
                      | None \<Rightarrow> [0x00])\<rparr>))
          else device_process (dv\<lparr>pending := rest\<rparr>))"
  by pat_completeness auto
termination
  by (relation "measure (\<lambda>dv. length (pending dv))") auto

declare device_process.simps [simp del]

text \<open>
  Modelled from the spec: the transport in front of that device. A write appends to the
  request stream and lets the device consume; a read takes from the reply stream.
\<close>

definition mock :: "device transport" where
  "mock =
     \<lparr>tr_write = (\<lambda>bs dv. device_process (dv\<lparr>pending := pending dv @ bs\<rparr>)),
      tr_read = (\<lambda>n dv. (take n (replies dv), dv\<lparr>replies := drop n (replies dv)\<rparr>))\<rparr>"

section \<open>Basic facts\<close>

lemma to_bytes_Suc_0: "0 \<le> n \<Longrightarrow> n < 256 \<Longrightarrow> to_bytes n (Suc 0) = Inr [word_of_int n]"
  by (simp add: to_bytes_def)

lemma to_bytes_1: "0 \<le> n \<Longrightarrow> n < 256 \<Longrightarrow> to_bytes n 1 = Inr [word_of_int n]"
  by (simp add: to_bytes_def)

lemma io_bind_lift_Inr [simp]: "io_bind (io_lift (Inr x)) f = f x"
  by (simp add: io_bind_def io_lift_def)

lemma io_bind_lift_Inl [simp]: "io_bind (io_lift (Inl e)) f s = (Inl e, s)"
  by (simp add: io_bind_def io_lift_def)

lemma io_bind_return [simp]: "io_bind (io_return x) f = f x"
  by (simp add: io_bind_def io_return_def)

lemma io_bind_modify [simp]: "io_bind (io_modify g) f s = f () (g s)"
  by (simp add: io_bind_def io_modify_def)

lemma io_bind_get [simp]: "io_bind io_get f s = f s s"
  by (simp add: io_bind_def io_get_def)

lemma io_bind_read [simp]:
  "io_bind (hydrabus_read T n) f s =
     f (fst (tr_read T n (hydrabus s)))
       (s\<lparr>hydrabus := snd (tr_read T n (hydrabus s)),
          trace := trace s @ [Read n (fst (tr_read T n (hydrabus s)))]\<rparr>)"
  by (simp add: io_bind_def hydrabus_read_def split: prod.splits)

lemma hydrabus_read_apply:
  "hydrabus_read T n s =
     (Inr (fst (tr_read T n (hydrabus s))),
      s\<lparr>hydrabus := snd (tr_read T n (hydrabus s)),
        trace := trace s @ [Read n (fst (tr_read T n (hydrabus s)))]\<rparr>)"
  by (simp add: hydrabus_read_def split: prod.splits)

lemma io_bind_write [simp]:
  "io_bind (hydrabus_write T bs) f s =
     f () (s\<lparr>hydrabus := tr_write T bs (hydrabus s), trace := trace s @ [Write bs]\<rparr>)"
  by (simp add: hydrabus_write_def)

lemma io_return_apply: "io_return x s = (Inr x, s)"
  by (simp add: io_return_def)

lemma be_bytes_length [simp]: "length (be_bytes k n) = k"
  by (induction k arbitrary: n) simp_all

lemma be_bytes_4:
  "be_bytes 4 n =
     [word_of_int (n div 2 ^ 24), word_of_int (n div 2 ^ 16), word_of_int (n div 2 ^ 8),
      word_of_int n]"
proof -
  have "be_bytes (Suc (Suc (Suc (Suc 0)))) n =
     [word_of_int (n div 256 div 256 div 256), word_of_int (n div 256 div 256),
      word_of_int (n div 256), word_of_int n]"
    by simp
  moreover have "n div 256 div 256 = n div 2 ^ 16"
    by (simp add: zdiv_zmult2_eq [symmetric])
  moreover have "n div 256 div 256 div 256 = n div 2 ^ 24"
    by (simp add: zdiv_zmult2_eq [symmetric])
  ultimately show ?thesis
    by (simp add: numeral_eq_Suc)
qed

lemma to_bytes_4:
  "0 \<le> n \<Longrightarrow> n < 2 ^ 32 \<Longrightarrow>
   to_bytes n 4 =
     Inr [word_of_int (n div 2 ^ 24), word_of_int (n div 2 ^ 16), word_of_int (n div 2 ^ 8),
          word_of_int n]"
  unfolding to_bytes_def be_bytes_4 by simp

lemma to_bytes_4_overflow:
  "n < 0 \<or> 2 ^ 32 \<le> n \<Longrightarrow> to_bytes n 4 = Inl OverflowError"
  unfolding to_bytes_def by auto

lemma from_bytes_big_acc_snoc:
  "from_bytes_big_acc acc (bs @ [b]) = 256 * from_bytes_big_acc acc bs + uint b"
  by (induction bs arbitrary: acc) simp_all

lemma from_bytes_big_be_bytes: "from_bytes_big (be_bytes k n) = n mod 256 ^ k"
proof (induction k arbitrary: n)
  case 0
  then show ?case by (simp add: from_bytes_big_def)
next
  case (Suc k)
  have "from_bytes_big (be_bytes (Suc k) n) =
          256 * from_bytes_big (be_bytes k (n div 256)) + uint (word_of_int n :: byte)"
    by (simp add: from_bytes_big_def from_bytes_big_acc_snoc)
  also have "\<dots> = 256 * (n div 256 mod 256 ^ k) + n mod 256"
    by (simp add: Suc.IH uint_word_of_int)
  also have "\<dots> = n mod 256 ^ Suc k"
    using zmod_zmult2_eq [of "256 ^ k" n 256] by simp
  finally show ?case .
qed

lemma from_bytes_big_to_bytes:
  "to_bytes n k = Inr bs \<Longrightarrow> length bs = k \<and> from_bytes_big bs = n"
  by (auto simp: to_bytes_def from_bytes_big_be_bytes split: if_splits)

lemma config_command_range:
  fixes c :: int
  assumes "0 \<le> c" "c < 256"
  shows "0 \<le> 0x80 OR c" "0x80 OR c < 256"
proof -
  show "0 \<le> 0x80 OR c" using assms by simp
  have "(0x80 :: int) OR c < 2 ^ 8"
    by (rule OR_upper) (use assms in simp_all)
  then show "0x80 OR c < 256" by simp
qed

lemma status_byte_is_one: "from_bytes_little [b] = 1 \<longleftrightarrow> b = 1"
  by (simp add: word_uint_eq_iff)

lemma configure_port_config [simp]: "config (snd (configure_port T s)) = config s"
  by (cases "to_bytes (0x80 OR config s) 1")
     (simp_all add: configure_port_def Let_def io_return_apply logger_error_def)

lemma configure_port_trace:
  "\<exists>rest. trace (snd (configure_port T s)) = trace s @ rest"
  by (cases "to_bytes (0x80 OR config s) 1")
     (simp_all add: configure_port_def Let_def io_return_apply logger_error_def)

lemma configure_port_apply:
  assumes "0 \<le> config s" and "config s < 256"
  shows "configure_port T s =
           (Inr (fst (tr_read T 1 (tr_write T [word_of_int (0x80 OR config s)] (hydrabus s)))
                 = [0x01]),
            s\<lparr>hydrabus :=
                snd (tr_read T 1 (tr_write T [word_of_int (0x80 OR config s)] (hydrabus s))),
              trace := trace s @
                [Write [word_of_int (0x80 OR config s)],
                 Read 1 (fst (tr_read T 1
                   (tr_write T [word_of_int (0x80 OR config s)] (hydrabus s))))] @
                (if fst (tr_read T 1
                      (tr_write T [word_of_int (0x80 OR config s)] (hydrabus s))) = [0x01]
                 then [] else [LogError ''Error setting config.''])\<rparr>)"
  using assms config_command_range [of "config s"]
  by (auto simp: configure_port_def to_bytes_Suc_0 io_return_apply logger_error_def Let_def)

lemma io_bind_discard:
  "io_bind m (\<lambda>_. io_return ()) s = (map_sum id (\<lambda>_. ()) (fst (m s)), snd (m s))"
proof (cases "m s")
  case (Pair r s')
  then show ?thesis
    by (cases r) (simp_all add: io_bind_def io_return_def)
qed

lemma bus_width_setter_apply:
  "bus_width_setter T v s =
     (map_sum id (\<lambda>_. ()) (fst (configure_port T
        (if v = 1 then s\<lparr>config := config s AND NOT 1\<rparr>
         else if v = 4 then s\<lparr>config := config s OR 1\<rparr>
         else s\<lparr>trace := trace s @ [Print ''Invalid value (1 or 4)'']\<rparr>))),
      snd (configure_port T
        (if v = 1 then s\<lparr>config := config s AND NOT 1\<rparr>
         else if v = 4 then s\<lparr>config := config s OR 1\<rparr>
         else s\<lparr>trace := trace s @ [Print ''Invalid value (1 or 4)'']\<rparr>)))"
proof -
  consider "v = 1" | "v = 4" | "v \<noteq> 1" "v \<noteq> 4" by blast
  then show ?thesis
  proof cases
    case 1
    then show ?thesis
      by (simp add: bus_width_setter_def io_bind_discard)
  next
    case 2
    then show ?thesis
      by (simp add: bus_width_setter_def io_bind_discard)
  next
    case 3
    then show ?thesis
      by (simp add: bus_width_setter_def print_def io_bind_discard)
  qed
qed

lemma width_bit_set: "(c OR 1) AND 1 \<noteq> (0::int)"
proof -
  have "odd (c OR 1)" by (simp add: even_or_iff)
  then show ?thesis
    unfolding and_one_eq by presburger
qed

lemma width_bit_clear: "(c AND NOT 1) AND 1 = (0::int)"
proof -
  have "even (c AND NOT 1)" by (simp add: even_and_iff)
  then show ?thesis
    unfolding and_one_eq by presburger
qed

lemma width_bit_range:
  fixes c :: int
  assumes "0 \<le> c" and "c < 256"
  shows "0 \<le> c OR 1" and "c OR 1 < 256" and "0 \<le> c AND NOT 1" and "c AND NOT 1 < 256"
proof -
  show "0 \<le> c OR 1"
    using assms(1) by (simp only: or_nonnegative_int_iff) simp
  have "c OR 1 < 2 ^ 8"
    by (rule OR_upper) (use assms in simp_all)
  then show "c OR 1 < 256" by simp
  show "0 \<le> c AND NOT 1"
    using assms(1) by (simp only: and_nonnegative_int_iff) simp
  have "c AND NOT 1 \<le> c"
    using assms(1) by (rule AND_upper1)
  with assms(2) show "c AND NOT 1 < 256" by linarith
qed


lemma read_apply:
  assumes "0 \<le> n" and "n < 2 ^ 32"
  shows "\<exists>addr rest blk s'. length addr = 4 \<and> from_bytes_big addr = n \<and>
           read T n s = (Inr blk, s') \<and>
           trace s' = trace s @ [Write [0x04], Write addr] @ rest"
proof -
  from assms obtain addr where a: "to_bytes n 4 = Inr addr"
    by (simp add: to_bytes_4)
  then have "length addr = 4 \<and> from_bytes_big addr = n"
    by (rule from_bytes_big_to_bytes)
  moreover have "\<exists>rest blk s'. read T n s = (Inr blk, s') \<and>
      trace s' = trace s @ [Write [0x04], Write addr] @ rest"
    using a by (simp add: read_def to_bytes_Suc_0 hydrabus_read_apply io_return_apply)
  ultimately show ?thesis by blast
qed

lemma write_block_apply:
  assumes "0 \<le> n" and "n < 2 ^ 32"
  shows "\<exists>addr rest ok s'. length addr = 4 \<and> from_bytes_big addr = n \<and>
           write_block T data n s = (Inr ok, s') \<and>
           trace s' = trace s @ [Write [0x05], Write addr] @ rest"
proof -
  from assms obtain addr where a: "to_bytes n 4 = Inr addr"
    by (simp add: to_bytes_4)
  then have "length addr = 4 \<and> from_bytes_big addr = n"
    by (rule from_bytes_big_to_bytes)
  moreover have "\<exists>rest ok s'. write_block T data n s = (Inr ok, s') \<and>
      trace s' = trace s @ [Write [0x05], Write addr] @ rest"
    using a by (simp add: write_block_def to_bytes_Suc_0 io_return_apply)
  ultimately show ?thesis by blast
qed

lemma read_overflow:
  assumes "n < 0 \<or> 2 ^ 32 \<le> n"
  shows "read T n s =
           (Inl OverflowError,
            s\<lparr>hydrabus := tr_write T [0x04] (hydrabus s), trace := trace s @ [Write [0x04]]\<rparr>)"
  using to_bytes_4_overflow [OF assms]
  by (simp add: read_def to_bytes_Suc_0)

lemma write_block_overflow:
  assumes "n < 0 \<or> 2 ^ 32 \<le> n"
  shows "write_block T data n s =
           (Inl OverflowError,
            s\<lparr>hydrabus := tr_write T [0x05] (hydrabus s), trace := trace s @ [Write [0x05]]\<rparr>)"
  using to_bytes_4_overflow [OF assms]
  by (simp add: write_block_def to_bytes_Suc_0)

lemma bus_width_setter_config:
  "config (snd (bus_width_setter T v s)) =
     (if v = 1 then config s AND NOT 1 else if v = 4 then config s OR 1 else config s)"
  by (simp add: bus_width_setter_apply)

lemma bus_width_of_config:
  "bus_width s = (if config s AND 1 \<noteq> 0 then 4 else 1)"
  by (simp add: bus_width_def)

lemma status_command_config:
  assumes "f \<in> {lock, unlock, set_password, clear_password, fail_to_lock}"
  shows "config (snd (f T s)) = config s"
  using assms
  by (auto simp: lock_def unlock_def set_password_def clear_password_def fail_to_lock_def
      to_bytes_Suc_0 io_return_apply)

lemma payload_command_config:
  assumes "f \<in> {cid, csd, ext_csd}"
  shows "config (snd (f T s)) = config s"
  using assms
  by (auto simp: cid_def csd_def ext_csd_def to_bytes_Suc_0 hydrabus_read_apply)

lemma is_lock_config: "config (snd (is_lock T s)) = config s"
  by (simp add: is_lock_def to_bytes_Suc_0 io_return_apply print_def Let_def)

lemma read_config: "config (snd (read T n s)) = config s"
  by (cases "to_bytes n 4")
     (simp_all add: read_def to_bytes_Suc_0 hydrabus_read_apply io_return_apply)

lemma write_block_config: "config (snd (write_block T data n s)) = config s"
  by (cases "to_bytes n 4")
     (simp_all add: write_block_def to_bytes_Suc_0 io_return_apply)

lemma perform_config:
  assumes "\<forall>v. c \<noteq> SetBusWidth v"
  shows "config (perform T c s) = config s"
  using assms
  by (cases c)
     (simp_all add: status_command_config payload_command_config is_lock_config
        read_config write_block_config)

lemma perform_keeps_bit:
  assumes "config s = 0 \<or> config s = 1"
  shows "config (perform T c s) = 0 \<or> config (perform T c s) = 1"
proof (cases "\<exists>v. c = SetBusWidth v")
  case True
  then obtain v where "c = SetBusWidth v" by blast
  with assms show ?thesis
    by (auto simp: bus_width_setter_config)
next
  case False
  then show ?thesis
    using assms by (simp add: perform_config)
qed

lemma run_keeps_bit:
  "config s = 0 \<or> config s = 1 \<Longrightarrow> config (run T cs s) = 0 \<or> config (run T cs s) = 1"
proof (induction cs arbitrary: s)
  case Nil
  then show ?case by simp
next
  case (Cons c cs)
  from Cons.prems have "config (perform T c s) = 0 \<or> config (perform T c s) = 1"
    by (rule perform_keeps_bit)
  then show ?case
    by (simp add: Cons.IH)
qed

section \<open>The block-storing device at work\<close>

lemma device_process_idle: "pending dv = [] \<Longrightarrow> device_process dv = dv"
  by (subst device_process.simps) simp

lemma device_process_write_partial:
  "pending dv = 0x05 # rest \<Longrightarrow> length rest < 516 \<Longrightarrow> device_process dv = dv"
  by (subst device_process.simps) simp

lemma device_process_read_partial:
  "pending dv = [0x04] \<Longrightarrow> device_process dv = dv"
  by (subst device_process.simps) simp

lemma device_process_write_complete:
  assumes "pending dv = 0x05 # addr @ data" and "length addr = 4" and "length data = 512"
  shows "device_process dv =
           dv\<lparr>blocks := (blocks dv)(from_bytes_big addr \<mapsto> data), pending := [],
              replies := replies dv @ [0x01]\<rparr>"
  using assms
  by (subst device_process.simps) (simp add: device_process_idle)

lemma device_process_read_complete:
  assumes "pending dv = 0x04 # addr" and "length addr = 4"
  shows "device_process dv =
           dv\<lparr>pending := [],
              replies := replies dv @
                (case blocks dv (from_bytes_big addr) of
                   Some blk \<Rightarrow> 0x01 # blk
                 | None \<Rightarrow> [0x00])\<rparr>"
  using assms
  by (subst device_process.simps) (simp add: device_process_idle)

lemma mock_write_command:
  assumes "pending dv = []" and "length addr = 4" and "length data = 512"
  shows "tr_write mock data (tr_write mock addr (tr_write mock [0x05] dv)) =
           dv\<lparr>blocks := (blocks dv)(from_bytes_big addr \<mapsto> data),
              replies := replies dv @ [0x01]\<rparr>"
proof -
  have 1: "tr_write mock [0x05] dv = dv\<lparr>pending := [0x05]\<rparr>"
    using assms(1) by (simp add: mock_def device_process_write_partial [where rest = "[]"])
  have 2: "tr_write mock addr (dv\<lparr>pending := [0x05]\<rparr>) = dv\<lparr>pending := 0x05 # addr\<rparr>"
    using assms(2) by (simp add: mock_def device_process_write_partial [where rest = addr])
  have 3: "tr_write mock data (dv\<lparr>pending := 0x05 # addr\<rparr>) =
      dv\<lparr>blocks := (blocks dv)(from_bytes_big addr \<mapsto> data), pending := [],
         replies := replies dv @ [0x01]\<rparr>"
    using assms(2,3)
    by (simp add: mock_def device_process_write_complete [where addr = addr and data = data])
  show ?thesis
    unfolding 1 2 3 using assms(1) by (cases dv) simp
qed

lemma mock_read_command:
  assumes "pending dv = []" and "length addr = 4"
  shows "tr_write mock addr (tr_write mock [0x04] dv) =
           dv\<lparr>replies := replies dv @
                (case blocks dv (from_bytes_big addr) of
                   Some blk \<Rightarrow> 0x01 # blk
                 | None \<Rightarrow> [0x00])\<rparr>"
proof -
  have 1: "tr_write mock [0x04] dv = dv\<lparr>pending := [0x04]\<rparr>"
    using assms(1) by (simp add: mock_def device_process_read_partial)
  have 2: "tr_write mock addr (dv\<lparr>pending := [0x04]\<rparr>) =
      dv\<lparr>pending := [],
         replies := replies dv @
           (case blocks dv (from_bytes_big addr) of
              Some blk \<Rightarrow> 0x01 # blk
            | None \<Rightarrow> [0x00])\<rparr>"
    using assms(2)
    by (simp add: mock_def device_process_read_complete [where addr = addr])
  show ?thesis
    unfolding 1 2 using assms(1) by (cases dv) simp
qed


lemma mock_read_reply:
  "tr_read mock k dv = (take k (replies dv), dv\<lparr>replies := drop k (replies dv)\<rparr>)"
  by (simp add: mock_def)

lemma mock_write_block:
  assumes "0 \<le> n" and "n < 2 ^ 32" and "length data = 512"
    and "pending (hydrabus s) = []" and "replies (hydrabus s) = []"
  shows "write_block mock data n s =
           (Inr True,
            s\<lparr>hydrabus := (hydrabus s)\<lparr>blocks := (blocks (hydrabus s))(n \<mapsto> data)\<rparr>,
              trace := trace s @
                [Write [0x05], Write (be_bytes 4 n), Write data, Read 1 [0x01]]\<rparr>)"
proof -
  have a: "to_bytes n 4 = Inr (be_bytes 4 n)"
    using assms(1,2) by (simp add: to_bytes_def)
  have b: "from_bytes_big (be_bytes 4 n) = n"
    using from_bytes_big_to_bytes [OF a] by simp
  have dev: "tr_write mock data (tr_write mock (be_bytes 4 n)
        (tr_write mock [0x05] (hydrabus s))) =
      (hydrabus s)\<lparr>blocks := (blocks (hydrabus s))(n \<mapsto> data), replies := [0x01]\<rparr>"
    using mock_write_command [of "hydrabus s" "be_bytes 4 n" data] assms(3,4,5) b
    by simp
  show ?thesis
    by (simp add: write_block_def to_bytes_Suc_0 a dev mock_read_reply io_return_apply
        assms(5))
qed

lemma mock_read_block:
  assumes "0 \<le> n" and "n < 2 ^ 32"
    and "pending (hydrabus s) = []" and "replies (hydrabus s) = []"
    and "blocks (hydrabus s) n = Some blk"
  shows "fst (read mock n s) = Inr (take 512 blk)"
proof -
  have a: "to_bytes n 4 = Inr (be_bytes 4 n)"
    using assms(1,2) by (simp add: to_bytes_def)
  have b: "from_bytes_big (be_bytes 4 n) = n"
    using from_bytes_big_to_bytes [OF a] by simp
  have dev: "tr_write mock (be_bytes 4 n) (tr_write mock [0x04] (hydrabus s)) =
      (hydrabus s)\<lparr>replies := 0x01 # blk\<rparr>"
    using mock_read_command [of "hydrabus s" "be_bytes 4 n"] assms(3,4,5) b
    by simp
  show ?thesis
    by (simp add: read_def to_bytes_Suc_0 a dev mock_read_reply hydrabus_read_apply)
qed

section \<open>Password and lock commands\<close>

text \<open>
  C8. Each of \<open>lock\<close>, \<open>unlock\<close>, \<open>set_password\<close>, \<open>clear_password\<close> and
  \<open>fail_to_lock\<close> writes exactly its one opcode byte (\<open>0x07\<close>, \<open>0x08\<close>, \<open>0x09\<close>, \<open>0x0A\<close>,
  \<open>0x0B\<close>), reads exactly one status byte, and returns the integer value of what was
  read, whatever it is; nothing else of the client changes.
\<close>

theorem lock_commands_return_raw_status:
  fixes T :: "'d transport" and s :: "'d mmc"
  assumes "(f, opcode) \<in> {(lock, 0x07), (unlock, 0x08), (set_password, 0x09),
                           (clear_password, 0x0A), (fail_to_lock, 0x0B)}"
    and "tr_read T 1 (tr_write T [opcode] (hydrabus s)) = (st, d)"
  shows "f T s = (Inr (from_bytes_little st),
                  s\<lparr>hydrabus := d, trace := trace s @ [Write [opcode], Read 1 st]\<rparr>)"
  using assms
  by (auto simp: lock_def unlock_def set_password_def clear_password_def fail_to_lock_def
      to_bytes_Suc_0 io_return_apply)

theorem lock_commands_return_raw_status_witness:
  "fail_to_lock replay (MMC_init [0x2A, 0x01]) =
     (Inr 42, \<lparr>rf = 0, mode = 0, config = 0, hydrabus = [0x01],
               trace = [Write [0x0B], Read 1 [0x2A]]\<rparr>)"
  using lock_commands_return_raw_status
    [of fail_to_lock "0x0B" replay "MMC_init [0x2A, 0x01]" "[0x2A]" "[0x01]"]
  by (simp add: replay_def MMC_init_def MMC_DEFAULT_CONFIG_def)

section \<open>Register queries\<close>

text \<open>
  C6. Each of \<open>cid\<close>, \<open>csd\<close> and \<open>ext_csd\<close> writes its one opcode byte (\<open>0x02\<close>,
  \<open>0x03\<close>, \<open>0x06\<close>), reads one status byte that has no influence on what follows, then
  reads a payload of 16, 16 and 512 bytes respectively and returns exactly what that read
  delivered.
\<close>

theorem register_queries_return_payload:
  fixes T :: "'d transport" and s :: "'d mmc"
  assumes "(f, opcode, len) \<in> {(cid, 0x02, 16), (csd, 0x03, 16), (ext_csd, 0x06, 512)}"
    and "tr_read T 1 (tr_write T [opcode] (hydrabus s)) = (st, d1)"
    and "tr_read T len d1 = (payload, d2)"
  shows "f T s = (Inr payload,
                  s\<lparr>hydrabus := d2,
                    trace := trace s @ [Write [opcode], Read 1 st, Read len payload]\<rparr>)"
  using assms
  by (auto simp: cid_def csd_def ext_csd_def to_bytes_Suc_0 hydrabus_read_apply)

theorem register_queries_return_payload_witness:
  "cid replay (MMC_init (0x00 # map word_of_nat [1..<20])) =
     (Inr (map word_of_nat [1..<17]),
      \<lparr>rf = 0, mode = 0, config = 0, hydrabus = map word_of_nat [17..<20],
       trace = [Write [0x02], Read 1 [0x00], Read 16 (map word_of_nat [1..<17])]\<rparr>)"
  using register_queries_return_payload
    [of cid "0x02" 16 replay "MMC_init (0x00 # map word_of_nat [1..<20])" "[0x00]"
        "map word_of_nat [1..<20]" "map word_of_nat [1..<17]" "map word_of_nat [17..<20]"]
  by (simp add: replay_def MMC_init_def MMC_DEFAULT_CONFIG_def upt_rec take_map drop_map)

section \<open>The lock query\<close>

text \<open>
  C4. \<open>is_lock\<close> writes the opcode byte \<open>0x0C\<close>, reads one status byte, and returns
  True exactly when \<open>status AND 0xF0\<close> is nonzero; a nonzero \<open>status AND 0x0F\<close> adds
  one printed notice and changes neither the returned value nor the completion of the call.
\<close>

theorem is_lock_masks:
  fixes T :: "'d transport" and s :: "'d mmc"
  assumes "tr_read T 1 (tr_write T [0x0C] (hydrabus s)) = (st, d)"
    and "status = from_bytes_little st"
  shows "is_lock T s =
           (Inr (status AND 0xF0 \<noteq> 0),
            s\<lparr>hydrabus := d,
              trace := trace s @ [Write [0x0C], Read 1 st] @
                (if status AND 0x0F \<noteq> 0 then [Print ''CMD42 Error flag ON''] else [])\<rparr>)"
  using assms
  by (auto simp: is_lock_def to_bytes_Suc_0 io_return_apply print_def Let_def)

theorem is_lock_masks_witness:
  "is_lock replay (MMC_init [0x13]) =
     (Inr True, \<lparr>rf = 0, mode = 0, config = 0, hydrabus = [],
       trace = [Write [0x0C], Read 1 [0x13], Print ''CMD42 Error flag ON'']\<rparr>)"
  using is_lock_masks [of replay "MMC_init [0x13]" "[0x13]" "[]" "0x13"]
  by (simp add: replay_def MMC_init_def MMC_DEFAULT_CONFIG_def)

section \<open>Port configuration\<close>

text \<open>
  C3. For a configuration value \<open>c\<close> that fits the command byte, \<open>configure_port\<close>
  writes exactly the one byte \<open>0x80 OR c\<close> (\<open>0x81\<close> when \<open>c = 1\<close>, \<open>0x80\<close> when
  \<open>c = 0\<close>), reads exactly one status byte, returns True exactly when the bytes read are
  \<open>[0x01]\<close>, otherwise logs an error and returns False, and never changes the stored
  configuration value.
\<close>

theorem configure_port_command:
  fixes T :: "'d transport" and s :: "'d mmc"
  assumes "0 \<le> config s" and "config s < 256"
    and "cmd = word_of_int (0x80 OR config s)"
    and "tr_read T 1 (tr_write T [cmd] (hydrabus s)) = (st, d)"
  shows "configure_port T s =
           (Inr (st = [0x01]),
            s\<lparr>hydrabus := d,
              trace := trace s @ [Write [cmd], Read 1 st] @
                (if st = [0x01] then [] else [LogError ''Error setting config.''])\<rparr>)
         \<and> config (snd (configure_port T s)) = config s
         \<and> (config s = 1 \<longrightarrow> cmd = 0x81) \<and> (config s = 0 \<longrightarrow> cmd = 0x80)"
  using assms config_command_range [of "config s"]
  by (auto simp: configure_port_def to_bytes_Suc_0 io_return_apply logger_error_def Let_def)


theorem configure_port_command_witness:
  "configure_port replay ((MMC_init [0x00])\<lparr>config := 1\<rparr>) =
     (Inr False,
      \<lparr>rf = 0, mode = 0, config = 1, hydrabus = [],
       trace = [Write [0x81], Read 1 [0x00], LogError ''Error setting config.'']\<rparr>)"
  using configure_port_command
    [where T = replay and s = "(MMC_init [0x00])\<lparr>config := 1\<rparr>" and cmd = "0x81"
       and st = "[0x00]" and d = "[]"]
  by (simp add: replay_def MMC_init_def)

section \<open>Block transfer\<close>

text \<open>
  C1. For a block number in the unsigned 32-bit range, \<open>read\<close> writes the opcode byte
  \<open>0x04\<close>, then the four big-endian bytes of the block number, then reads one status
  byte. When the status is 1 it reads 512 bytes and returns what that read delivered;
  otherwise it returns the empty byte sequence and issues no further read.
\<close>

theorem read_protocol:
  fixes T :: "'d transport" and s :: "'d mmc"
  assumes "0 \<le> n" and "n < 2 ^ 32"
    and "addr = [word_of_int (n div 2 ^ 24), word_of_int (n div 2 ^ 16),
                 word_of_int (n div 2 ^ 8), word_of_int n]"
    and "tr_read T 1 (tr_write T addr (tr_write T [0x04] (hydrabus s))) = (st, d1)"
    and "tr_read T 512 d1 = (blk, d2)"
  shows "read T n s =
           (if from_bytes_little st = 1
            then (Inr blk,
                  s\<lparr>hydrabus := d2,
                    trace := trace s @ [Write [0x04], Write addr, Read 1 st, Read 512 blk]\<rparr>)
            else (Inr [],
                  s\<lparr>hydrabus := d1,
                    trace := trace s @ [Write [0x04], Write addr, Read 1 st]\<rparr>))"
  using assms
  by (simp add: read_def to_bytes_Suc_0 to_bytes_4 hydrabus_read_apply io_return_apply)

theorem read_protocol_witness:
  "read replay 258 (MMC_init (0x01 # replicate 512 0x5A @ [0x07])) =
     (Inr (replicate 512 0x5A),
      \<lparr>rf = 0, mode = 0, config = 0, hydrabus = [0x07],
       trace = [Write [0x04], Write [0x00, 0x00, 0x01, 0x02], Read 1 [0x01],
                Read 512 (replicate 512 0x5A)]\<rparr>)"
  using read_protocol
    [where T = replay and s = "MMC_init (0x01 # replicate 512 0x5A @ [0x07])" and n = 258
       and addr = "[0x00, 0x00, 0x01, 0x02]" and st = "[0x01]"
       and ?d1.0 = "replicate 512 0x5A @ [0x07]"
       and blk = "replicate 512 0x5A" and ?d2.0 = "[0x07]"]
  by (simp add: replay_def MMC_init_def MMC_DEFAULT_CONFIG_def)

text \<open>
  C5. For a block number in the unsigned 32-bit range and any \<open>data\<close>, \<open>write\<close> performs
  three transport writes in order (the opcode byte \<open>0x05\<close>, the four big-endian bytes of
  the block number, and \<open>data\<close> itself, whatever its length), then reads one status byte
  and returns whether the status is 1.
\<close>

theorem write_protocol:
  fixes T :: "'d transport" and s :: "'d mmc"
  assumes "0 \<le> n" and "n < 2 ^ 32"
    and "addr = [word_of_int (n div 2 ^ 24), word_of_int (n div 2 ^ 16),
                 word_of_int (n div 2 ^ 8), word_of_int n]"
    and "tr_read T 1 (tr_write T data (tr_write T addr (tr_write T [0x05] (hydrabus s))))
           = (st, d)"
  shows "write_block T data n s =
           (Inr (from_bytes_little st = 1),
            s\<lparr>hydrabus := d,
              trace := trace s @ [Write [0x05], Write addr, Write data, Read 1 st]\<rparr>)"
  using assms
  by (simp add: write_block_def to_bytes_Suc_0 to_bytes_4 io_return_apply)

theorem write_protocol_witness:
  "write_block replay [0x10, 0x20, 0x30] 16909060 (MMC_init [0x01]) =
     (Inr True,
      \<lparr>rf = 0, mode = 0, config = 0, hydrabus = [],
       trace = [Write [0x05], Write [0x01, 0x02, 0x03, 0x04], Write [0x10, 0x20, 0x30],
                Read 1 [0x01]]\<rparr>)"
  using write_protocol
    [where T = replay and s = "MMC_init [0x01]" and n = 16909060
       and data = "[0x10, 0x20, 0x30]" and addr = "[0x01, 0x02, 0x03, 0x04]"
       and st = "[0x01]" and d = "[]"]
  by (simp add: replay_def MMC_init_def MMC_DEFAULT_CONFIG_def)

text \<open>
  C9. Against the block-storing device, starting with no request or reply bytes in
  flight, for every block number in the unsigned 32-bit range and every \<open>data\<close> of 512
  bytes, \<open>write(data, n)\<close> succeeds and the \<open>read(n)\<close> that follows returns exactly \<open>data\<close>.
\<close>

theorem write_then_read_returns_data:
  assumes "0 \<le> n" and "n < 2 ^ 32" and "length data = 512"
    and "pending (hydrabus s) = []" and "replies (hydrabus s) = []"
  shows "fst (write_block mock data n s) = Inr True
       \<and> fst (read mock n (snd (write_block mock data n s))) = Inr data"
proof -
  let ?s' = "snd (write_block mock data n s)"
  note w = mock_write_block [OF assms]
  have "fst (read mock n ?s') = Inr (take 512 data)"
    by (rule mock_read_block [OF assms(1,2)]) (simp_all add: w assms(4,5))
  then show ?thesis
    by (simp add: w assms(3))
qed

theorem write_then_read_returns_data_witness:
  "fst (read mock 7
     (snd (write_block mock (replicate 512 0x5A) 7
        (MMC_init \<lparr>blocks = Map.empty, pending = [], replies = []\<rparr>))))
   = Inr (replicate 512 0x5A)"
  using write_then_read_returns_data
    [where n = 7 and data = "replicate 512 0x5A"
       and s = "MMC_init \<lparr>blocks = Map.empty, pending = [], replies = []\<rparr>"]
  by (simp add: MMC_init_def)

text \<open>
  C7 (as amended). The only local condition on the block number is the one the four-byte
  conversion imposes: \<open>read\<close> and \<open>write\<close> return normally exactly for
  \<open>0 \<le> block_num < 2 ^ 32\<close>, and then the second transport write is four bytes whose
  big-endian value is the block number.
\<close>

theorem block_number_range:
  fixes T :: "'d transport" and s :: "'d mmc"
  shows "((\<exists>blk s'. read T n s = (Inr blk, s')) \<longleftrightarrow> 0 \<le> n \<and> n < 2 ^ 32)
       \<and> ((\<exists>ok s'. write_block T data n s = (Inr ok, s')) \<longleftrightarrow> 0 \<le> n \<and> n < 2 ^ 32)
       \<and> (0 \<le> n \<and> n < 2 ^ 32 \<longrightarrow>
            (\<exists>addr rest. length addr = 4 \<and> from_bytes_big addr = n \<and>
               trace (snd (read T n s)) = trace s @ [Write [0x04], Write addr] @ rest)
          \<and> (\<exists>addr rest. length addr = 4 \<and> from_bytes_big addr = n \<and>
               trace (snd (write_block T data n s)) =
                 trace s @ [Write [0x05], Write addr] @ rest))"
proof (cases "0 \<le> n \<and> n < 2 ^ 32")
  case True
  then have r: "0 \<le> n" "n < 2 ^ 32" by simp_all
  from read_apply [OF r, of T s] obtain addr rest blk s' where
    "length addr = 4" "from_bytes_big addr = n" "read T n s = (Inr blk, s')"
    "trace s' = trace s @ [Write [0x04], Write addr] @ rest" by blast
  moreover from write_block_apply [OF r, of T data s] obtain addr' rest' ok s'' where
    "length addr' = 4" "from_bytes_big addr' = n" "write_block T data n s = (Inr ok, s'')"
    "trace s'' = trace s @ [Write [0x05], Write addr'] @ rest'" by blast
  ultimately show ?thesis using True
    by (metis snd_conv)
next
  case False
  then have o: "n < 0 \<or> 2 ^ 32 \<le> n" by linarith
  show ?thesis
    using False by (simp add: read_overflow [OF o] write_block_overflow [OF o])
qed

theorem block_number_range_witness:
  "(\<exists>blk s'. read replay 258 (MMC_init [0x00]) = (Inr blk, s'))
   \<and> \<not> (\<exists>ok s'. write_block replay [] 4294967296 (MMC_init [0x00]) = (Inr ok, s'))"
  using block_number_range [where T = replay and s = "MMC_init [0x00]" and n = 258]
    block_number_range [where T = replay and s = "MMC_init [0x00]" and n = 4294967296
      and data = "[]"]
  by simp

text \<open>
  C7 as stated fails outside that range: for \<open>block_num = 2 ^ 32\<close> and for
  \<open>block_num = - 1\<close> the conversion raises OverflowError after the opcode byte has been
  written, and no block number is transmitted.
\<close>

theorem block_number_overflow_counterexample:
  "read replay 4294967296 (MMC_init []) =
     (Inl OverflowError,
      \<lparr>rf = 0, mode = 0, config = 0, hydrabus = [], trace = [Write [0x04]]\<rparr>)
   \<and> write_block replay [0x00] (- 1) (MMC_init []) =
     (Inl OverflowError,
      \<lparr>rf = 0, mode = 0, config = 0, hydrabus = [], trace = [Write [0x05]]\<rparr>)"
  by (simp add: read_def write_block_def to_bytes_def replay_def MMC_init_def
      MMC_DEFAULT_CONFIG_def)

section \<open>Bus width\<close>

text \<open>
  C2. Setting the bus width to 4 makes the getter return 4, setting it to 1 makes it
  return 1, and any other value leaves the configuration value and the getter's result
  unchanged and prints the invalid-value message. In all three cases the setter is that
  branch followed by one run of \<open>configure_port\<close>, which for a configuration value that
  fits the command byte shows on the wire as exactly one command byte and one status read.
\<close>

theorem bus_width_setter_effect:
  fixes T :: "'d transport" and s :: "'d mmc"
  assumes "s1 = (if v = 1 then s\<lparr>config := config s AND NOT 1\<rparr>
                 else if v = 4 then s\<lparr>config := config s OR 1\<rparr>
                 else s\<lparr>trace := trace s @ [Print ''Invalid value (1 or 4)'']\<rparr>)"
    and "s' = snd (bus_width_setter T v s)"
  shows "(v = 4 \<longrightarrow> bus_width s' = 4)
       \<and> (v = 1 \<longrightarrow> bus_width s' = 1)
       \<and> (v \<noteq> 1 \<and> v \<noteq> 4 \<longrightarrow>
            config s' = config s \<and> bus_width s' = bus_width s \<and>
            (\<exists>rest. trace s' = trace s @ Print ''Invalid value (1 or 4)'' # rest))
       \<and> bus_width_setter T v s =
            (map_sum id (\<lambda>_. ()) (fst (configure_port T s1)), snd (configure_port T s1))
       \<and> (0 \<le> config s \<and> config s < 256 \<longrightarrow>
            (\<exists>st. trace s' =
               trace s1 @ [Write [word_of_int (0x80 OR config s1)], Read 1 st] @
               (if st = [0x01] then [] else [LogError ''Error setting config.''])))"
proof -
  have c: "config s' =
      (if v = 1 then config s AND NOT 1 else if v = 4 then config s OR 1 else config s)"
    unfolding assms(2) by (rule bus_width_setter_config)
  have run: "bus_width_setter T v s =
      (map_sum id (\<lambda>_. ()) (fst (configure_port T s1)), snd (configure_port T s1))"
    unfolding assms(1) by (rule bus_width_setter_apply)
  then have s': "s' = snd (configure_port T s1)"
    by (simp add: assms(2))
  have four: "v = 4 \<longrightarrow> bus_width s' = 4"
    by (simp add: bus_width_of_config c width_bit_set)
  have one: "v = 1 \<longrightarrow> bus_width s' = 1"
  proof
    assume "v = 1"
    then have "config s' = config s AND NOT 1"
      by (simp only: c simp_thms if_True)
    then have "config s' AND 1 = 0"
      by (simp only: width_bit_clear)
    then show "bus_width s' = 1"
      by (simp only: bus_width_of_config) simp
  qed
  have other: "v \<noteq> 1 \<and> v \<noteq> 4 \<longrightarrow>
      config s' = config s \<and> bus_width s' = bus_width s \<and>
      (\<exists>rest. trace s' = trace s @ Print ''Invalid value (1 or 4)'' # rest)"
  proof
    assume v: "v \<noteq> 1 \<and> v \<noteq> 4"
    then have "trace s1 = trace s @ [Print ''Invalid value (1 or 4)'']"
      by (simp add: assms(1))
    moreover obtain rest where "trace s' = trace s1 @ rest"
      using configure_port_trace [of T s1] s' by blast
    ultimately have "trace s' = trace s @ Print ''Invalid value (1 or 4)'' # rest"
      by simp
    then show "config s' = config s \<and> bus_width s' = bus_width s \<and>
      (\<exists>rest. trace s' = trace s @ Print ''Invalid value (1 or 4)'' # rest)"
      using v by (auto simp: c bus_width_of_config)
  qed
  have wire: "0 \<le> config s \<and> config s < 256 \<longrightarrow>
      (\<exists>st. trace s' =
         trace s1 @ [Write [word_of_int (0x80 OR config s1)], Read 1 st] @
         (if st = [0x01] then [] else [LogError ''Error setting config.'']))"
  proof
    assume r: "0 \<le> config s \<and> config s < 256"
    then have "0 \<le> config s1" and "config s1 < 256"
      using width_bit_range [of "config s"] by (auto simp: assms(1))
    from configure_port_apply [OF this, of T] show
      "\<exists>st. trace s' =
         trace s1 @ [Write [word_of_int (0x80 OR config s1)], Read 1 st] @
         (if st = [0x01] then [] else [LogError ''Error setting config.''])"
      unfolding s' by (intro exI) simp
  qed
  from four one other run wire show ?thesis by blast
qed

theorem bus_width_setter_effect_witness:
  "bus_width (snd (bus_width_setter replay 4 (MMC_init [0x01]))) = 4
   \<and> bus_width (snd (bus_width_setter replay 1
        ((MMC_init [0x01])\<lparr>config := 1\<rparr>))) = 1
   \<and> bus_width (snd (bus_width_setter replay 8
        ((MMC_init [0x01])\<lparr>config := 1\<rparr>))) = 4"
  using bus_width_setter_effect [where T = replay and s = "MMC_init [0x01]" and v = 4,
      OF refl refl]
    bus_width_setter_effect [where T = replay and s = "(MMC_init [0x01])\<lparr>config := 1\<rparr>"
      and v = 1, OF refl refl]
    bus_width_setter_effect [where T = replay and s = "(MMC_init [0x01])\<lparr>config := 1\<rparr>"
      and v = 8, OF refl refl]
  by (simp add: bus_width_def bus_width_setter_def configure_port_def print_def
      logger_error_def replay_def MMC_init_def MMC_DEFAULT_CONFIG_def to_bytes_Suc_0
      io_return_apply)

text \<open>
  C10. A fresh client has configuration value 0 and bus width 1. No call other than the
  bus-width setter changes the configuration value, and the setter only sets bit 0, clears
  bit 0, or leaves the value alone. Hence after any sequence of calls on a fresh client
  the configuration value is 0 or 1 and the getter returns 1 or 4.
\<close>

theorem config_is_width_bit:
  fixes T :: "'d transport" and d :: 'd and s :: "'d mmc"
  shows "config (MMC_init d) = 0 \<and> bus_width (MMC_init d) = 1
       \<and> ((\<forall>v. c \<noteq> SetBusWidth v) \<longrightarrow> config (perform T c s) = config s)
       \<and> config (perform T (SetBusWidth v) s)
            \<in> {config s AND NOT 1, config s OR 1, config s}
       \<and> config (run T cs (MMC_init d)) \<in> {0, 1}
       \<and> bus_width (run T cs (MMC_init d)) \<in> {1, 4}"
proof -
  have init: "config (MMC_init d) = 0"
    by (simp add: MMC_init_def MMC_DEFAULT_CONFIG_def)
  then have "config (run T cs (MMC_init d)) = 0 \<or> config (run T cs (MMC_init d)) = 1"
    by (intro run_keeps_bit) simp
  moreover have "bus_width (MMC_init d) = 1"
    by (simp add: bus_width_def init)
  moreover have "bus_width (run T cs (MMC_init d)) \<in> {1, 4}"
    by (simp add: bus_width_def)
  moreover have "config (perform T (SetBusWidth v) s)
      \<in> {config s AND NOT 1, config s OR 1, config s}"
    by (simp add: bus_width_setter_config)
  ultimately show ?thesis
    using init perform_config [of c T s] by blast
qed

theorem config_is_width_bit_witness:
  "config (run replay [SetBusWidth 4, ReadBlock 0, SetBusWidth 7, Lock]
      (MMC_init [0x01, 0x00, 0x00, 0x09])) = 1
   \<and> config (perform replay Lock ((MMC_init [0x09])\<lparr>config := 1\<rparr>)) = 1"
  using config_is_width_bit [where T = replay and d = "[0x01, 0x00, 0x00, 0x09]"
      and cs = "[SetBusWidth 4, ReadBlock 0, SetBusWidth 7, Lock]" and c = Lock
      and s = "(MMC_init [0x09])\<lparr>config := 1\<rparr>" and v = 4]
  by (simp add: bus_width_setter_config read_config status_command_config
      MMC_init_def MMC_DEFAULT_CONFIG_def)

end
